theory Spec2Isabelle
  imports Complex_Main "HOL-Library.Sublist" "HOL-Library.Multiset" "HOL-Library.AList"
begin

section \<open>Python values used by the training script\<close>

text \<open>
  The script \<^verbatim>\<open>pathoMozhi/train/train.py\<close> consists of \<^verbatim>\<open>random_seed\<close> and \<^verbatim>\<open>main\<close>.
  The parts of \<^verbatim>\<open>main\<close> modelled here are, in source order: the flag check (lines 88-89),
  checkpoint discovery (150-161), checkpoint loading (163-173), the optimizer's parameter
  filter and \<^verbatim>\<open>get_grouped_params\<close> (194-237), the optimizer-state load (240-248), the
  step count (251-253) and the epoch loop with the final save (283-303).

  Exceptions are values: a computation that may raise returns \<open>py_error + 'a\<close>.
  Strings are ASCII \<open>char list\<close>s. Python \<^verbatim>\<open>int\<close> is \<open>int\<close>. Python \<^verbatim>\<open>float\<close> is kept
  abstract as a type \<open>'f\<close> with a zero, numerals and a product; no law of arithmetic is
  used on it, so every statement holds for IEEE doubles read as such a type.
\<close>

datatype py_error =
    ValueError string
  | AttributeError string
  | UnboundLocalError string
  | ZeroDivisionError string
  | KeyError string
  | IndexError string
  | LibraryError string

subsection \<open>String methods\<close>

text \<open>\<^verbatim>\<open>s.endswith(t)\<close> is \<open>suffix t s\<close>; \<^verbatim>\<open>t in s\<close> is \<open>sublist t s\<close>.\<close>

definition char_lower :: "char \<Rightarrow> char" where
  "char_lower c =
     (let n = (of_char c :: nat) in if 65 \<le> n \<and> n \<le> 90 then char_of (n + 32) else c)"

definition py_lower :: "string \<Rightarrow> string" where
  "py_lower s = map char_lower s"

text \<open>
  \<^verbatim>\<open>s.replace(old, new)\<close>: every non-overlapping occurrence of \<open>old\<close>, found left to
  right, is replaced; an empty \<open>old\<close> matches before every character and at the end.
\<close>

function py_replace :: "string \<Rightarrow> string \<Rightarrow> string \<Rightarrow> string" where
  "py_replace old new s =
     (if old = [] then new @ concat (map (\<lambda>c. c # new) s)
      else if s = [] then []
      else if prefix old s then new @ py_replace old new (drop (length old) s)
      else hd s # py_replace old new (tl s))"
  by pat_completeness auto
termination
  by (relation "measure (\<lambda>(old, new, s). length s)") auto

declare py_replace.simps [simp del]

text \<open>\<^verbatim>\<open>s.split(sep)\<close> for a separator of one character; the result is never empty.\<close>

fun py_split :: "char \<Rightarrow> string \<Rightarrow> string list" where
  "py_split sep [] = [[]]"
| "py_split sep (c # cs) =
     (if c = sep then [] # py_split sep cs
      else (case py_split sep cs of [] \<Rightarrow> [[c]] | w # ws \<Rightarrow> (c # w) # ws))"

text \<open>\<^verbatim>\<open>xs[0]\<close> and \<^verbatim>\<open>xs[-1]\<close>: both raise on the empty list.\<close>

definition item_first :: "'a list \<Rightarrow> py_error + 'a" where
  "item_first xs = (case xs of [] \<Rightarrow> Inl (IndexError ''list index out of range'') | x # _ \<Rightarrow> Inr x)"

definition item_last :: "'a list \<Rightarrow> py_error + 'a" where
  "item_last xs = (if xs = [] then Inl (IndexError ''list index out of range'') else Inr (last xs))"

subsection \<open>Integers and text\<close>

text \<open>\<^verbatim>\<open>str(i)\<close> for an integer: decimal digits, a minus sign when negative.\<close>

definition digit_char :: "nat \<Rightarrow> char" where
  "digit_char d = char_of (48 + d)"

fun digits_of :: "nat \<Rightarrow> string" where
  "digits_of n = (if n < 10 then [digit_char n] else digits_of (n div 10) @ [digit_char (n mod 10)])"

declare digits_of.simps [simp del]

definition py_str_int :: "int \<Rightarrow> string" where
  "py_str_int i = (if i < 0 then CHR ''-'' # digits_of (nat (- i)) else digits_of (nat i))"

text \<open>
  \<^verbatim>\<open>int(s)\<close> for an ASCII string: surrounding whitespace (tab, line feed, vertical tab,
  form feed, carriage return, space) is dropped, one sign is allowed, and the digits may
  be grouped by single underscores. Anything else raises \<^verbatim>\<open>ValueError\<close>.
\<close>

definition is_space :: "char \<Rightarrow> bool" where
  "is_space c = ((of_char c :: nat) \<in> {9, 10, 11, 12, 13, 32})"

definition py_strip :: "string \<Rightarrow> string" where
  "py_strip s = rev (dropWhile is_space (rev (dropWhile is_space s)))"

definition is_digit :: "char \<Rightarrow> bool" where
  "is_digit c = (48 \<le> (of_char c :: nat) \<and> (of_char c :: nat) \<le> 57)"

definition digit_val :: "char \<Rightarrow> nat" where
  "digit_val c = of_char c - 48"

fun parse_digits :: "nat \<Rightarrow> string \<Rightarrow> nat option" where
  "parse_digits acc [] = Some acc"
| "parse_digits acc [c] = (if is_digit c then Some (10 * acc + digit_val c) else None)"
| "parse_digits acc (c # d # ds) =
     (if is_digit c then parse_digits (10 * acc + digit_val c) (d # ds)
      else if c = CHR ''_'' \<and> is_digit d then parse_digits (10 * acc + digit_val d) ds
      else None)"

definition parse_decimal :: "string \<Rightarrow> nat option" where
  "parse_decimal s =
     (case s of [] \<Rightarrow> None
      | c # cs \<Rightarrow> if is_digit c then parse_digits (digit_val c) cs else None)"

definition invalid_literal :: py_error where
  "invalid_literal = ValueError ''invalid literal for int() with base 10''"

definition py_int :: "string \<Rightarrow> py_error + int" where
  "py_int s =
     (let t = py_strip s;
          (neg, body) = (case t of
                           c # cs \<Rightarrow> if c = CHR ''-'' then (True, cs)
                                     else if c = CHR ''+'' then (False, cs) else (False, t)
                         | [] \<Rightarrow> (False, t))
      in case parse_decimal body of
           None \<Rightarrow> Inl invalid_literal
         | Some n \<Rightarrow> Inr (if neg then - int n else int n))"

text \<open>
  \<^verbatim>\<open>sorted(xs, key=f)\<close>: every key is computed first (the first raise wins), then the list
  is sorted stably by key.
\<close>

fun eval_keys :: "('a \<Rightarrow> py_error + int) \<Rightarrow> 'a list \<Rightarrow> py_error + (int \<times> 'a) list" where
  "eval_keys key [] = Inr []"
| "eval_keys key (x # xs) =
     (case key x of
        Inl e \<Rightarrow> Inl e
      | Inr k \<Rightarrow> (case eval_keys key xs of Inl e \<Rightarrow> Inl e | Inr ks \<Rightarrow> Inr ((k, x) # ks)))"

definition py_sorted :: "('a \<Rightarrow> py_error + int) \<Rightarrow> 'a list \<Rightarrow> py_error + 'a list" where
  "py_sorted key xs =
     (case eval_keys key xs of Inl e \<Rightarrow> Inl e | Inr ks \<Rightarrow> Inr (map snd (sort_key fst ks)))"

text \<open>\<^verbatim>\<open>os.path.join(a, b)\<close> on POSIX paths.\<close>

definition path_join :: "string \<Rightarrow> string \<Rightarrow> string" where
  "path_join a b =
     (if prefix ''/'' b then b
      else if a = [] \<or> suffix ''/'' a then a @ b
      else a @ ''/'' @ b)"


section \<open>Parameters, arguments, checkpoints and collaborators\<close>

text \<open>
  A parameter is a tensor object: \<open>pid\<close> is its identity, \<open>ndim\<close> its number of
  dimensions. \<open>exclude_from_optimizer\<close> is \<open>None\<close> when the attribute is absent, which
  \<^verbatim>\<open>getattr(p, "exclude_from_optimizer", False)\<close> reads as \<^verbatim>\<open>False\<close>.
\<close>

record param =
  pid :: nat
  ndim :: nat
  requires_grad :: bool
  exclude_from_optimizer :: "bool option"

record 'f param_group =
  params :: "param list"
  weight_decay :: 'f
  lr :: 'f

text \<open>
  The fields of \<^verbatim>\<open>args\<close> read by the modelled lines. \<open>rank\<close> and \<open>world_size\<close> are set at
  line 95. \<open>fsdp\<close> is read at line 172 but no \<^verbatim>\<open>--fsdp\<close> argument is declared by the parser
  of lines 45-84: the attribute is \<open>None\<close> (absent) in the arguments the parser returns, and
  reading it then raises \<^verbatim>\<open>AttributeError\<close>.
\<close>

record 'f args =
  run_name :: string
  resume_from_checkpoint :: "string option"
  batch_size :: int
  learning_rate :: 'f
  gate_learning_rate :: "'f option"
  weight_decay_arg :: 'f
  num_epochs :: int
  train_num_samples :: int
  lr_scheduler :: string
  warmup_steps :: int
  report_to_wandb :: bool
  save_checkpoints_to_wandb :: bool
  rank :: int
  world_size :: int
  fsdp :: "bool option"

text \<open>
  The saved optimizer state, of which the script reads \<^verbatim>\<open>osd['param_groups']\<close>, and the
  checkpoint dictionary; a field is \<open>None\<close> when the key is absent. A state dict is an
  association list with distinct keys, in insertion order.
\<close>

record ('g, 's) opt_state_dict =
  osd_param_groups :: "'g list"
  osd_state :: 's

record ('v, 'g, 's, 'l) checkpoint =
  model_state_dict :: "(string \<times> 'v) list option"
  optimizer_state_dict :: "('g, 's) opt_state_dict option"
  lr_scheduler_state_dict :: "'l option"
  epoch :: "int option"

datatype schedule_kind = Linear | Cosine | Constant

text \<open>
  Everything \<^verbatim>\<open>main\<close> calls outside this file acts on a world \<open>'w\<close>: the file system,
  the model, the optimizer, the schedule, the standard output. A call that may raise
  returns \<open>py_error + _\<close>. The line ranges say which source lines a field stands for.
\<close>

record ('f, 'w, 'v, 'g, 's, 'l) collaborators =
  print :: "string \<Rightarrow> 'w \<Rightarrow> 'w"
  initialise :: "'f args \<Rightarrow> 'w \<Rightarrow> py_error + ('f args \<times> 'w)"
    \<comment> \<open>lines 92-147: environment, \<^verbatim>\<open>world_info_from_env\<close>, \<^verbatim>\<open>init_distributed_device\<close>,
        seeding, model creation, new tokens, \<^verbatim>\<open>wandb.init\<close>\<close>
  path_exists :: "string \<Rightarrow> 'w \<Rightarrow> bool"
  glob :: "string \<Rightarrow> 'w \<Rightarrow> string list"
  torch_load :: "string \<Rightarrow> 'w \<Rightarrow> py_error + ('v, 'g, 's, 'l) checkpoint"
  model_load_state_dict :: "(string \<times> 'v) list \<Rightarrow> bool \<Rightarrow> 'w \<Rightarrow> py_error + 'w"
  wrap_model :: "'f args \<Rightarrow> 'w \<Rightarrow> py_error + 'w"
    \<comment> \<open>lines 176-191: device placement, DDP, activation checkpointing\<close>
  named_parameters :: "'w \<Rightarrow> (string \<times> param) list"
  AdamW :: "'f param_group list \<Rightarrow> 'w \<Rightarrow> py_error + 'w"
  optimizer_load_state_dict :: "('g, 's) opt_state_dict \<Rightarrow> 'w \<Rightarrow> py_error + 'w"
  optimizer_param_groups :: "'w \<Rightarrow> 'f param_group list"
  get_schedule_with_warmup :: "schedule_kind \<Rightarrow> int \<Rightarrow> int option \<Rightarrow> 'w \<Rightarrow> py_error + 'w"
  lr_scheduler_load_state_dict :: "'l \<Rightarrow> 'w \<Rightarrow> py_error + 'w"
  model_train :: "'w \<Rightarrow> 'w"
  train_one_epoch :: "'f args \<Rightarrow> int \<Rightarrow> 'w \<Rightarrow> py_error + 'w"
    \<comment> \<open>lines 284-299: feature loader, dataset, \<^verbatim>\<open>set_epoch\<close>, one training pass\<close>
  save_checkpoint :: "'f args \<Rightarrow> int \<Rightarrow> 'w \<Rightarrow> py_error + 'w"

section \<open>Flag check (lines 88-89)\<close>

definition check_wandb_flags :: "'f args \<Rightarrow> py_error + unit" where
  "check_wandb_flags a =
     (if save_checkpoints_to_wandb a \<and> \<not> report_to_wandb a
      then Inl (ValueError ''save_checkpoints_to_wandb requires report_to_wandb'')
      else Inr ())"

section \<open>Checkpoint discovery (lines 150-161)\<close>

definition checkpoint_base_path :: string where
  "checkpoint_base_path = ''/mnt/bulk-mars/vidhya/visionLanguage/CHECKPOINT''"

text \<open>The sort key of line 159: \<^verbatim>\<open>int(x.split("_")[-1].split(".")[0])\<close>.\<close>

definition checkpoint_key :: "string \<Rightarrow> py_error + int" where
  "checkpoint_key x =
     (case item_last (py_split CHR ''_'' x) of
        Inl e \<Rightarrow> Inl e
      | Inr t \<Rightarrow> (case item_first (py_split CHR ''.'' t) of
                    Inl e \<Rightarrow> Inl e
                  | Inr u \<Rightarrow> py_int u))"

definition discover_checkpoint ::
  "('f, 'w, 'v, 'g, 's, 'l) collaborators \<Rightarrow> 'f args \<Rightarrow> 'w \<Rightarrow> py_error + ('f args \<times> 'w)" where
  "discover_checkpoint C a w =
     (let checkpoint_dir = path_join checkpoint_base_path (run_name a)
      in if path_exists C checkpoint_dir w \<and> resume_from_checkpoint a = None then
           (let checkpoint_list = glob C (path_join checkpoint_dir ''checkpoint_*.pt'') w
            in if length checkpoint_list = 0 then
                 Inr (a, print C (''Found no checkpoints for run '' @ run_name a @ ''.'') w)
               else
                 (case py_sorted checkpoint_key checkpoint_list of
                    Inl e \<Rightarrow> Inl e
                  | Inr sorted_list \<Rightarrow>
                      (case item_last sorted_list of
                         Inl e \<Rightarrow> Inl e
                       | Inr f \<Rightarrow>
                           Inr (a\<lparr>resume_from_checkpoint := Some f\<rparr>,
                                print C (''Found checkpoint '' @ f @ '' for run '' @ run_name a @ ''.'') w))))
         else Inr (a, w))"

section \<open>Checkpoint loading (lines 163-173)\<close>

text \<open>
  Line 169: the dict comprehension \<^verbatim>\<open>{k.replace("module.", ""): v for k, v in msd.items()}\<close>.
  A key written twice keeps its first position and its last value, which is
  \<open>AList.update\<close>.
\<close>

definition rename_key :: "string \<Rightarrow> string" where
  "rename_key k = py_replace ''module.'' [] k"

definition rename_keys :: "(string \<times> 'v) list \<Rightarrow> (string \<times> 'v) list" where
  "rename_keys msd = foldl (\<lambda>d kv. AList.update (rename_key (fst kv)) (snd kv) d) [] msd"

text \<open>
  The result is \<^verbatim>\<open>resume_from_epoch\<close>, the local variable \<^verbatim>\<open>checkpoint\<close> (\<open>None\<close> while it
  is unbound) and the world.
\<close>

definition load_checkpoint ::
  "('f, 'w, 'v, 'g, 's, 'l) collaborators \<Rightarrow> 'f args \<Rightarrow> 'w
     \<Rightarrow> py_error + (int \<times> ('v, 'g, 's, 'l) checkpoint option \<times> 'w)" where
  "load_checkpoint C a w =
     (case resume_from_checkpoint a of
        None \<Rightarrow> Inr (0, None, w)
      | Some path \<Rightarrow>
          (let w1 = (if rank a = 0 then print C (''Loading checkpoint from '' @ path) w else w)
           in case torch_load C path w1 of
                Inl e \<Rightarrow> Inl e
              | Inr ck \<Rightarrow>
                  (case model_state_dict ck of
                     None \<Rightarrow> Inl (KeyError ''model_state_dict'')
                   | Some msd0 \<Rightarrow>
                       (let msd = rename_keys msd0
                        in case epoch ck of
                             None \<Rightarrow> Inl (KeyError ''epoch'')
                           | Some e \<Rightarrow>
                               (let resume_from_epoch = e + 1
                                in case fsdp a of
                                     None \<Rightarrow> Inl (AttributeError ''fsdp'')
                                   | Some f \<Rightarrow>
                                       if \<not> f \<or> rank a = 0 then
                                         (case model_load_state_dict C msd False w1 of
                                            Inl err \<Rightarrow> Inl err
                                          | Inr w2 \<Rightarrow> Inr (resume_from_epoch, Some ck, w2))
                                       else Inr (resume_from_epoch, Some ck, w1))))))"

text \<open>
  What the specification says of line 169 instead: the leading wrapper prefix is
  stripped.
\<close>

definition strip_prefix :: "string \<Rightarrow> string \<Rightarrow> string" where
  "strip_prefix p k = (if prefix p k then drop (length p) k else k)"

section \<open>Parameter grouping (lines 194-237)\<close>

definition getattr_exclude :: "param \<Rightarrow> bool" where
  "getattr_exclude p = (case exclude_from_optimizer p of None \<Rightarrow> False | Some b \<Rightarrow> b)"

text \<open>Lines 195-201: the filter applied to \<^verbatim>\<open>ddp_model.named_parameters()\<close>.\<close>

definition params_to_optimize :: "(string \<times> param) list \<Rightarrow> (string \<times> param) list" where
  "params_to_optimize named =
     filter (\<lambda>x. requires_grad (snd x) \<and> \<not> getattr_exclude (snd x)) named"

datatype group_name = Decay | No_decay | Gate

text \<open>The branch taken by one iteration of the loop of lines 218-226; \<open>None\<close> is \<^verbatim>\<open>continue\<close>.\<close>

definition classify :: "string \<Rightarrow> param \<Rightarrow> group_name option" where
  "classify n p =
     (if \<not> requires_grad p then None
      else if suffix ''attn_gate'' n \<or> suffix ''ff_gate'' n then Some Gate
      else if ndim p = 1 \<or> suffix ''.bias'' n \<or> sublist ''norm'' (py_lower n) then Some No_decay
      else Some Decay)"

text \<open>The loop: the three lists \<^verbatim>\<open>decay, no_decay, gate\<close>, each appended to in input order.\<close>

fun group_loop ::
  "(string \<times> param) list \<Rightarrow> param list \<times> param list \<times> param list
     \<Rightarrow> param list \<times> param list \<times> param list" where
  "group_loop [] acc = acc"
| "group_loop ((n, p) # rest) (decay, no_decay, gate) =
     (case classify n p of
        None \<Rightarrow> group_loop rest (decay, no_decay, gate)
      | Some Gate \<Rightarrow> group_loop rest (decay, no_decay, gate @ [p])
      | Some No_decay \<Rightarrow> group_loop rest (decay, no_decay @ [p], gate)
      | Some Decay \<Rightarrow> group_loop rest (decay @ [p], no_decay, gate))"

text \<open>
  \<^verbatim>\<open>get_grouped_params(named_params, base_lr, wd, gate_lr=None, gate_lr_mult=5.0)\<close>.
  \<open>gate_lr = None\<close> is Python's \<^verbatim>\<open>None\<close>; the literal \<^verbatim>\<open>0.0\<close> is \<open>0\<close>.
\<close>

definition gate_lr_mult_default :: "'f::numeral" where
  "gate_lr_mult_default = 5"

definition get_grouped_params ::
  "(string \<times> param) list \<Rightarrow> 'f \<Rightarrow> 'f \<Rightarrow> 'f option \<Rightarrow> 'f
     \<Rightarrow> ('f::{zero,times}) param_group list" where
  "get_grouped_params named_params base_lr wd gate_lr gate_lr_mult =
     (case group_loop named_params ([], [], []) of
        (decay, no_decay, gate) \<Rightarrow>
          (let lr_gate = (case gate_lr of Some g \<Rightarrow> g | None \<Rightarrow> base_lr * gate_lr_mult)
           in [\<lparr>params = decay, weight_decay = wd, lr = base_lr\<rparr>,
               \<lparr>params = no_decay, weight_decay = 0, lr = base_lr\<rparr>,
               \<lparr>params = gate, weight_decay = 0, lr = lr_gate\<rparr>]))"

text \<open>
  Line 235: the call made by \<^verbatim>\<open>main\<close> on the filtered list; \<^verbatim>\<open>gate_lr_mult\<close> is not
  passed and takes its default.
\<close>

definition optimizer_groups ::
  "(string \<times> param) list \<Rightarrow> 'f \<Rightarrow> 'f \<Rightarrow> 'f option \<Rightarrow> ('f::{zero,times,numeral}) param_group list" where
  "optimizer_groups named base_lr wd gate_lr =
     get_grouped_params (params_to_optimize named) base_lr wd gate_lr gate_lr_mult_default"

text \<open>
  For the statements: a parameter is trainable when the filter of lines 195-201 keeps it,
  and \<open>members c xs\<close> are the parameters of \<open>xs\<close> whose iteration takes the branch of
  group \<open>c\<close>, in input order.
\<close>

definition trainable :: "param \<Rightarrow> bool" where
  "trainable p = (requires_grad p \<and> \<not> getattr_exclude p)"

definition members :: "group_name \<Rightarrow> (string \<times> param) list \<Rightarrow> param list" where
  "members c xs = map snd (filter (\<lambda>x. classify (fst x) (snd x) = Some c) xs)"

section \<open>Optimizer-state load (lines 240-248)\<close>

text \<open>
  \<^verbatim>\<open>optimizer.load_state_dict(osd)\<close> is the library's; when it raises, the optimizer in the
  world is the one it was given. Only \<^verbatim>\<open>ValueError\<close> is caught.
\<close>

definition load_optimizer_checkpoint ::
  "('f, 'w, 'v, 'g, 's, 'l) collaborators \<Rightarrow> 'f args \<Rightarrow> ('v, 'g, 's, 'l) checkpoint option \<Rightarrow> 'w
     \<Rightarrow> py_error + 'w" where
  "load_optimizer_checkpoint C a checkpoint_var w =
     (case resume_from_checkpoint a of
        None \<Rightarrow> Inr w
      | Some _ \<Rightarrow>
          (case checkpoint_var of
             None \<Rightarrow> Inl (UnboundLocalError ''checkpoint'')
           | Some ck \<Rightarrow>
               (case optimizer_state_dict ck of
                  None \<Rightarrow> Inr w
                | Some osd \<Rightarrow>
                    (case optimizer_load_state_dict C osd w of
                       Inr w1 \<Rightarrow> Inr w1
                     | Inl (ValueError msg) \<Rightarrow>
                         Inr (print C (''Current optimizer param groups: ''
                                        @ py_str_int (int (length (optimizer_param_groups C w))))
                               (print C (''Checkpoint param groups: ''
                                          @ py_str_int (int (length (osd_param_groups osd))))
                                 (print C ''WARNING: Optimizer state_dict could not be loaded due to mismatch.'' w)))
                     | Inl err \<Rightarrow> Inl err))))"

section \<open>Step count and schedule (lines 251-278)\<close>

text \<open>Python's \<^verbatim>\<open>//\<close> on integers rounds down, as \<open>div\<close> on \<open>int\<close> does, and raises on zero.\<close>

definition total_training_steps :: "'f args \<Rightarrow> py_error + int" where
  "total_training_steps a =
     (let d = batch_size a * world_size a
      in if d = 0 then Inl (ZeroDivisionError ''integer division or modulo by zero'')
         else Inr ((train_num_samples a div d) * num_epochs a))"

definition make_lr_scheduler ::
  "('f, 'w, 'v, 'g, 's, 'l) collaborators \<Rightarrow> 'f args \<Rightarrow> int \<Rightarrow> 'w \<Rightarrow> py_error + 'w" where
  "make_lr_scheduler C a total_steps w =
     (if lr_scheduler a = ''linear'' then
        get_schedule_with_warmup C Linear (warmup_steps a) (Some total_steps) w
      else if lr_scheduler a = ''cosine'' then
        get_schedule_with_warmup C Cosine (warmup_steps a) (Some total_steps) w
      else get_schedule_with_warmup C Constant (warmup_steps a) None w)"

definition load_scheduler_checkpoint ::
  "('f, 'w, 'v, 'g, 's, 'l) collaborators \<Rightarrow> 'f args \<Rightarrow> ('v, 'g, 's, 'l) checkpoint option \<Rightarrow> 'w
     \<Rightarrow> py_error + 'w" where
  "load_scheduler_checkpoint C a checkpoint_var w =
     (case resume_from_checkpoint a of
        None \<Rightarrow> Inr w
      | Some _ \<Rightarrow>
          (case checkpoint_var of
             None \<Rightarrow> Inl (UnboundLocalError ''checkpoint'')
           | Some ck \<Rightarrow>
               (case lr_scheduler_state_dict ck of
                  None \<Rightarrow> Inl (KeyError ''lr_scheduler_state_dict'')
                | Some lsd \<Rightarrow> lr_scheduler_load_state_dict C lsd w)))"

section \<open>Epoch loop and final save (lines 283-303)\<close>

text \<open>
  The loop variable \<^verbatim>\<open>epoch\<close> is a local of \<^verbatim>\<open>main\<close>: \<open>None\<close> while nothing has been
  assigned to it, which is still the case after a loop over an empty range. Line 303
  reads it.
\<close>

fun epoch_loop ::
  "('f, 'w, 'v, 'g, 's, 'l) collaborators \<Rightarrow> 'f args \<Rightarrow> int list \<Rightarrow> int option \<times> 'w
     \<Rightarrow> py_error + (int option \<times> 'w)" where
  "epoch_loop C a [] (epoch_var, w) = Inr (epoch_var, w)"
| "epoch_loop C a (e # es) (epoch_var, w) =
     (case train_one_epoch C a e w of
        Inl err \<Rightarrow> Inl err
      | Inr w1 \<Rightarrow>
          (case save_checkpoint C a e w1 of
             Inl err \<Rightarrow> Inl err
           | Inr w2 \<Rightarrow> epoch_loop C a es (Some e, w2)))"

definition epoch_driver ::
  "('f, 'w, 'v, 'g, 's, 'l) collaborators \<Rightarrow> 'f args \<Rightarrow> int \<Rightarrow> 'w \<Rightarrow> py_error + 'w" where
  "epoch_driver C a resume_from_epoch w =
     (case epoch_loop C a [resume_from_epoch..num_epochs a - 1] (None, w) of
        Inl err \<Rightarrow> Inl err
      | Inr (None, w1) \<Rightarrow> Inl (UnboundLocalError ''epoch'')
      | Inr (Some e, w1) \<Rightarrow> save_checkpoint C a e w1)"

section \<open>The script (lines 86-303)\<close>

text \<open>Sequencing: the first raise ends the run.\<close>

definition and_then :: "'e + 'a \<Rightarrow> ('a \<Rightarrow> 'e + 'b) \<Rightarrow> 'e + 'b" where
  "and_then m f = (case m of Inl e \<Rightarrow> Inl e | Inr x \<Rightarrow> f x)"

definition main ::
  "('f::{zero,times,numeral}, 'w, 'v, 'g, 's, 'l) collaborators \<Rightarrow> 'f args \<Rightarrow> 'w \<Rightarrow> py_error + 'w" where
  "main C args0 w0 =
     and_then (check_wandb_flags args0) (\<lambda>_.
     and_then (initialise C args0 w0) (\<lambda>(args1, w1).
     and_then (discover_checkpoint C args1 w1) (\<lambda>(a, w2).
     and_then (load_checkpoint C a w2) (\<lambda>(resume_from_epoch, checkpoint_var, w3).
     and_then (wrap_model C a w3) (\<lambda>w4.
     and_then (AdamW C (optimizer_groups (named_parameters C w4) (learning_rate a)
                          (weight_decay_arg a) (gate_learning_rate a)) w4) (\<lambda>w5.
     and_then (load_optimizer_checkpoint C a checkpoint_var w5) (\<lambda>w6.
     and_then (total_training_steps a) (\<lambda>total_steps.
     and_then (make_lr_scheduler C a total_steps
                 (if rank a = 0 then print C (''Total training steps: '' @ py_str_int total_steps) w6
                  else w6)) (\<lambda>w7.
     and_then (load_scheduler_checkpoint C a checkpoint_var w7) (\<lambda>w8.
     epoch_driver C a resume_from_epoch (model_train C w8)))))))))))"

section \<open>Example collaborators\<close>

text \<open>
  Concrete inputs on which the statements below are evaluated. The example world is the
  list of the calls made so far; the example library calls succeed, except that the
  optimizer rejects a saved state whose number of groups is not its own.
\<close>

datatype event =
    Printed string
  | Model_loaded "(string \<times> int) list" bool
  | Optimizer_made nat
  | Optimizer_loaded
  | Schedule_made schedule_kind
  | Schedule_loaded
  | Trained int
  | Saved int

definition example_named :: "(string \<times> param) list" where
  "example_named =
     [(''module.lang_encoder.layers.0.gated_cross_attn_layer.attn_gate'',
         \<lparr>pid = 0, ndim = 1, requires_grad = True, exclude_from_optimizer = None\<rparr>),
      (''module.lang_encoder.layers.0.gated_cross_attn_layer.ff_gate'',
         \<lparr>pid = 1, ndim = 1, requires_grad = True, exclude_from_optimizer = None\<rparr>),
      (''module.perceiver.layers.0.to_q.weight'',
         \<lparr>pid = 2, ndim = 2, requires_grad = True, exclude_from_optimizer = None\<rparr>),
      (''module.perceiver.layers.0.to_out.bias'',
         \<lparr>pid = 3, ndim = 1, requires_grad = True, exclude_from_optimizer = None\<rparr>),
      (''module.perceiver.LayerNorm.scale'',
         \<lparr>pid = 4, ndim = 2, requires_grad = True, exclude_from_optimizer = Some False\<rparr>),
      (''module.lang_encoder.embed_tokens.weight'',
         \<lparr>pid = 5, ndim = 2, requires_grad = False, exclude_from_optimizer = None\<rparr>),
      (''module.vision_encoder.proj.weight'',
         \<lparr>pid = 6, ndim = 2, requires_grad = True, exclude_from_optimizer = Some True\<rparr>)]"

definition example_args :: "real args" where
  "example_args =
     \<lparr>run_name = ''run'', resume_from_checkpoint = None, batch_size = 128,
      learning_rate = 1 / 10000, gate_learning_rate = None, weight_decay_arg = 1 / 100,
      num_epochs = 1, train_num_samples = 10000, lr_scheduler = ''constant'',
      warmup_steps = 5000, report_to_wandb = False, save_checkpoints_to_wandb = False,
      rank = 0, world_size = 1, fsdp = None\<rparr>"

definition example_checkpoint :: "(int, nat, unit, unit) checkpoint" where
  "example_checkpoint =
     \<lparr>model_state_dict = Some [(''module.perceiver.latents'', 11), (''module.lang_encoder.submodule.weight'', 12)],
      optimizer_state_dict = Some \<lparr>osd_param_groups = [4, 2], osd_state = ()\<rparr>,
      lr_scheduler_state_dict = Some (),
      epoch = Some 0\<rparr>"

definition example ::
  "string list \<Rightarrow> (int, nat, unit, unit) checkpoint
     \<Rightarrow> (real, event list, int, nat, unit, unit) collaborators" where
  "example files ck =
     \<lparr>print = (\<lambda>s w. w @ [Printed s]),
      initialise = (\<lambda>a w. Inr (a, w)),
      path_exists = (\<lambda>p w. True),
      glob = (\<lambda>pattern w. files),
      torch_load = (\<lambda>p w. Inr ck),
      model_load_state_dict = (\<lambda>msd strict w. Inr (w @ [Model_loaded msd strict])),
      wrap_model = (\<lambda>a w. Inr w),
      named_parameters = (\<lambda>w. example_named),
      AdamW = (\<lambda>groups w. Inr (w @ [Optimizer_made (length groups)])),
      optimizer_load_state_dict =
        (\<lambda>osd w. if length (osd_param_groups osd) \<noteq> 3
                 then Inl (ValueError ''loaded state dict has a different number of parameter groups'')
                 else Inr (w @ [Optimizer_loaded])),
      optimizer_param_groups = (\<lambda>w. optimizer_groups example_named (1 / 10000) (1 / 100) None),
      get_schedule_with_warmup = (\<lambda>k n t w. Inr (w @ [Schedule_made k])),
      lr_scheduler_load_state_dict = (\<lambda>l w. Inr (w @ [Schedule_loaded])),
      model_train = (\<lambda>w. w),
      train_one_epoch = (\<lambda>a e w. Inr (w @ [Trained e])),
      save_checkpoint = (\<lambda>a e w. Inr (w @ [Saved e]))\<rparr>"

definition example_files :: "string list" where
  "example_files =
     [''/mnt/bulk-mars/vidhya/visionLanguage/CHECKPOINT/run/checkpoint_3.pt'',
      ''/mnt/bulk-mars/vidhya/visionLanguage/CHECKPOINT/run/checkpoint_7.pt'',
      ''/mnt/bulk-mars/vidhya/visionLanguage/CHECKPOINT/run/checkpoint_5.pt'']"

section \<open>Parameter grouping: the three groups\<close>

lemma group_loop_members:
  "group_loop xs (d, nd, g) = (d @ members Decay xs, nd @ members No_decay xs, g @ members Gate xs)"
proof (induction xs arbitrary: d nd g)
  case Nil
  show ?case by (simp add: members_def)
next
  case (Cons x xs)
  obtain n p where x: "x = (n, p)" by (cases x)
  show ?case
  proof (cases "classify n p")
    case None
    with x Cons show ?thesis by (simp add: members_def)
  next
    case (Some c)
    with x Cons show ?thesis by (cases c) (simp_all add: members_def)
  qed
qed

lemma get_grouped_params_members:
  "get_grouped_params xs base_lr wd gate_lr k =
     [\<lparr>params = members Decay xs, weight_decay = wd, lr = base_lr\<rparr>,
      \<lparr>params = members No_decay xs, weight_decay = 0, lr = base_lr\<rparr>,
      \<lparr>params = members Gate xs, weight_decay = 0,
        lr = (case gate_lr of Some g \<Rightarrow> g | None \<Rightarrow> base_lr * k)\<rparr>]"
  by (simp add: get_grouped_params_def group_loop_members)

lemma optimizer_groups_nth:
  "params (optimizer_groups named base_lr wd gate_lr ! 0) = members Decay (params_to_optimize named)"
  "params (optimizer_groups named base_lr wd gate_lr ! 1) = members No_decay (params_to_optimize named)"
  "params (optimizer_groups named base_lr wd gate_lr ! 2) = members Gate (params_to_optimize named)"
  "length (optimizer_groups named base_lr wd gate_lr) = 3"
  by (simp_all add: optimizer_groups_def get_grouped_params_members)

lemma classify_None_iff: "classify n p = None \<longleftrightarrow> \<not> requires_grad p"
  by (simp add: classify_def)

lemma mset_members:
  "mset (members Decay xs) + mset (members No_decay xs) + mset (members Gate xs)
     = mset (map snd (filter (\<lambda>x. requires_grad (snd x)) xs))"
proof (induction xs)
  case Nil
  show ?case by (simp add: members_def)
next
  case (Cons x xs)
  show ?case
  proof (cases "classify (fst x) (snd x)")
    case None
    then have "\<not> requires_grad (snd x)" by (simp add: classify_None_iff)
    with None Cons show ?thesis by (simp add: members_def)
  next
    case (Some c)
    then have "requires_grad (snd x)" using classify_None_iff[of "fst x" "snd x"] by simp
    with Some Cons show ?thesis by (cases c) (simp_all add: members_def)
  qed
qed

lemma filter_params_to_optimize:
  "filter (\<lambda>x. requires_grad (snd x)) (params_to_optimize xs) = params_to_optimize xs"
  by (simp add: params_to_optimize_def conj_commute cong: conj_cong)

lemma mset_groups:
  "mset (concat (map params (optimizer_groups named base_lr wd gate_lr)))
     = mset (map snd (params_to_optimize named))"
  using mset_members[of "params_to_optimize named"]
  by (simp add: optimizer_groups_def get_grouped_params_members filter_params_to_optimize add.assoc)

lemma set_params_to_optimize:
  "snd ` set (params_to_optimize named) = {p \<in> snd ` set named. trainable p}"
  by (auto simp: params_to_optimize_def trainable_def)

lemma distinct_groups:
  assumes "distinct (map snd named)"
  shows "distinct (concat (map params (optimizer_groups named base_lr wd gate_lr)))"
proof -
  have "distinct (map snd (params_to_optimize named))"
    using assms by (simp add: params_to_optimize_def distinct_map_filter)
  then show ?thesis
    by (metis mset_groups mset_eq_imp_distinct_iff)
qed

lemma concat_groups:
  "concat (map params (optimizer_groups named base_lr wd gate_lr)) =
     members Decay (params_to_optimize named) @ members No_decay (params_to_optimize named)
       @ members Gate (params_to_optimize named)"
  by (simp add: optimizer_groups_def get_grouped_params_members)

text \<open>
  C1. Parameter grouping yields exactly three groups. Each occurrence of a trainable
  parameter (gradients enabled, not flagged \<^verbatim>\<open>exclude_from_optimizer\<close>) in the input is
  one occurrence in the groups taken together; since \<^verbatim>\<open>named_parameters()\<close> lists every
  tensor once, each trainable parameter is in exactly one group; a parameter with
  gradients disabled or flagged excluded is in none.
\<close>

theorem grouping_partition:
  fixes base_lr wd :: "'f::{zero,times,numeral}"
  assumes "distinct (map snd named)"
  shows "let gs = optimizer_groups named base_lr wd gate_lr in
           length gs = 3
         \<and> mset (concat (map params gs)) = mset (map snd (params_to_optimize named))
         \<and> (\<forall>p \<in> snd ` set named. trainable p \<longrightarrow> (\<exists>!i. i < 3 \<and> p \<in> set (params (gs ! i))))
         \<and> (\<forall>p. \<not> trainable p \<longrightarrow> (\<forall>i < 3. p \<notin> set (params (gs ! i))))"
proof -
  define gs where "gs = optimizer_groups named base_lr wd gate_lr"
  define D where "D = members Decay (params_to_optimize named)"
  define N where "N = members No_decay (params_to_optimize named)"
  define G where "G = members Gate (params_to_optimize named)"
  have gs: "params (gs ! 0) = D" "params (gs ! 1) = N" "params (gs ! 2) = G" "length gs = 3"
    by (simp_all only: gs_def D_def N_def G_def optimizer_groups_nth)
  have cc: "concat (map params gs) = D @ N @ G"
    by (simp only: gs_def D_def N_def G_def concat_groups)
  have ms: "mset (concat (map params gs)) = mset (map snd (params_to_optimize named))"
    unfolding gs_def by (rule mset_groups)
  have un: "set D \<union> set N \<union> set G = {p \<in> snd ` set named. trainable p}"
    using arg_cong[OF ms, of set_mset] by (simp add: cc set_params_to_optimize Un_assoc)
  have di: "distinct (D @ N @ G)"
    using distinct_groups[OF assms, of base_lr wd gate_lr] by (simp add: gs_def[symmetric] cc)
  have mem: "(i < 3 \<and> p \<in> set (params (gs ! i)))
               \<longleftrightarrow> (i = 0 \<and> p \<in> set D) \<or> (i = 1 \<and> p \<in> set N) \<or> (i = 2 \<and> p \<in> set G)" for i p
  proof -
    have "i < 3 \<longleftrightarrow> i = 0 \<or> i = 1 \<or> i = 2" by arith
    then show ?thesis using gs(1-3) by (auto simp del: One_nat_def)
  qed
  have dj: "set D \<inter> set N = {}" "set D \<inter> set G = {}" "set N \<inter> set G = {}"
    using di by auto
  have ex1: "\<exists>!i. i < 3 \<and> p \<in> set (params (gs ! i))" if "p \<in> snd ` set named" "trainable p" for p
  proof -
    from that un have "p \<in> set D \<or> p \<in> set N \<or> p \<in> set G" by blast
    then consider "p \<in> set D" "p \<notin> set N" "p \<notin> set G"
      | "p \<notin> set D" "p \<in> set N" "p \<notin> set G"
      | "p \<notin> set D" "p \<notin> set N" "p \<in> set G"
      using dj by blast
    then show ?thesis
      unfolding mem by cases auto
  qed
  have none: "p \<notin> set (params (gs ! i))" if "\<not> trainable p" "i < 3" for p i
  proof -
    from that(1) un have "p \<notin> set D \<and> p \<notin> set N \<and> p \<notin> set G" by blast
    with mem[of i p] that(2) show ?thesis by blast
  qed
  show ?thesis
    unfolding Let_def gs_def[symmetric] using gs(4) ms ex1 none by blast
qed

theorem grouping_partition_witness:
  "distinct (map snd example_named)
   \<and> (let gs = optimizer_groups example_named (1 / 10000 :: real) (1 / 100) None in
           length gs = 3
         \<and> mset (concat (map params gs)) = mset (map snd (params_to_optimize example_named))
         \<and> (\<forall>p \<in> snd ` set example_named. trainable p \<longrightarrow> (\<exists>!i. i < 3 \<and> p \<in> set (params (gs ! i))))
         \<and> (\<forall>p. \<not> trainable p \<longrightarrow> (\<forall>i < 3. p \<notin> set (params (gs ! i)))))"
proof -
  have h: "distinct (map snd example_named)"
    by (simp add: example_named_def)
  show ?thesis
    using h grouping_partition[OF h, of "1 / 10000 :: real" "1 / 100" None] by (rule conjI)
qed

lemma example_groups:
  "map (map pid \<circ> params) (optimizer_groups example_named (1 / 10000 :: real) (1 / 100) None)
     = [[2], [3, 4], [0, 1]]"
  by code_simp

text \<open>
  C2. A trainable parameter whose name ends with \<^verbatim>\<open>attn_gate\<close> or \<^verbatim>\<open>ff_gate\<close> takes
  the gate branch whatever its dimensionality and the rest of its name, and is a member
  of the gate group (the third one); with every tensor listed once it is in neither of
  the other two.
\<close>

theorem gate_suffix_goes_to_gate_group:
  fixes base_lr wd :: "'f::{zero,times,numeral}"
  assumes "(n, p) \<in> set named" and "trainable p"
    and "suffix ''attn_gate'' n \<or> suffix ''ff_gate'' n"
  shows "classify n p = Some Gate
       \<and> p \<in> set (params (optimizer_groups named base_lr wd gate_lr ! 2))
       \<and> (distinct (map snd named) \<longrightarrow>
            p \<notin> set (params (optimizer_groups named base_lr wd gate_lr ! 0))
          \<and> p \<notin> set (params (optimizer_groups named base_lr wd gate_lr ! 1)))"
proof -
  have c: "classify n p = Some Gate"
    using assms(2,3) by (auto simp: classify_def trainable_def)
  have "(n, p) \<in> set (params_to_optimize named)"
    using assms(1,2) by (simp add: params_to_optimize_def trainable_def)
  with c have g: "p \<in> set (members Gate (params_to_optimize named))"
    by (force simp: members_def)
  have "p \<notin> set (members Decay (params_to_optimize named))
      \<and> p \<notin> set (members No_decay (params_to_optimize named))" if "distinct (map snd named)"
  proof -
    have "distinct (members Decay (params_to_optimize named)
            @ members No_decay (params_to_optimize named) @ members Gate (params_to_optimize named))"
      using distinct_groups[OF that, of base_lr wd gate_lr] by (simp only: concat_groups)
    with g show ?thesis by auto
  qed
  with c g show ?thesis by (simp only: optimizer_groups_nth) blast
qed

theorem gate_suffix_goes_to_gate_group_witness:
  "(''module.lang_encoder.layers.0.gated_cross_attn_layer.attn_gate'',
      \<lparr>pid = 0, ndim = 1, requires_grad = True, exclude_from_optimizer = None\<rparr>) \<in> set example_named
   \<and> trainable \<lparr>pid = 0, ndim = 1, requires_grad = True, exclude_from_optimizer = None\<rparr>
   \<and> suffix ''attn_gate'' ''module.lang_encoder.layers.0.gated_cross_attn_layer.attn_gate''
   \<and> distinct (map snd example_named)
   \<and> classify ''module.lang_encoder.layers.0.gated_cross_attn_layer.attn_gate''
        \<lparr>pid = 0, ndim = 1, requires_grad = True, exclude_from_optimizer = None\<rparr> = Some Gate
   \<and> \<lparr>pid = 0, ndim = 1, requires_grad = True, exclude_from_optimizer = None\<rparr>
        \<in> set (params (optimizer_groups example_named (1 / 10000 :: real) (1 / 100) None ! 2))
   \<and> \<lparr>pid = 0, ndim = 1, requires_grad = True, exclude_from_optimizer = None\<rparr>
        \<notin> set (params (optimizer_groups example_named (1 / 10000 :: real) (1 / 100) None ! 0))
   \<and> \<lparr>pid = 0, ndim = 1, requires_grad = True, exclude_from_optimizer = None\<rparr>
        \<notin> set (params (optimizer_groups example_named (1 / 10000 :: real) (1 / 100) None ! 1))"
proof -
  let ?n = "''module.lang_encoder.layers.0.gated_cross_attn_layer.attn_gate''"
  let ?p = "\<lparr>pid = 0, ndim = 1, requires_grad = True, exclude_from_optimizer = None\<rparr>"
  have h1: "(?n, ?p) \<in> set example_named" by (simp add: example_named_def)
  have h2: "trainable ?p" by (simp add: trainable_def getattr_exclude_def)
  have h3: "suffix ''attn_gate'' ?n" by code_simp
  have h4: "distinct (map snd example_named)" by (simp add: example_named_def)
  from gate_suffix_goes_to_gate_group[OF h1 h2 disjI1[OF h3], of "1 / 10000 :: real" "1 / 100" None] h1 h2 h3 h4
  show ?thesis by blast
qed

text \<open>
  C7. The gate group's learning rate is the explicit gate rate when one is given, and
  otherwise the base rate times the multiplier, which is 5.0 in the call made by the
  script; the decay and no_decay groups carry the base rate.
\<close>

theorem gate_learning_rate_rule:
  fixes base_lr wd k :: "'f::{zero,times,numeral}"
  shows "map lr (get_grouped_params xs base_lr wd gate_lr k)
           = [base_lr, base_lr, (case gate_lr of Some g \<Rightarrow> g | None \<Rightarrow> base_lr * k)]
       \<and> map lr (optimizer_groups named base_lr wd gate_lr)
           = [base_lr, base_lr, (case gate_lr of Some g \<Rightarrow> g | None \<Rightarrow> base_lr * 5)]"
  by (simp add: optimizer_groups_def get_grouped_params_members gate_lr_mult_default_def)

theorem gate_learning_rate_rule_witness:
  "map lr (optimizer_groups example_named (1 / 10000 :: real) (1 / 100) None)
     = [1 / 10000, 1 / 10000, 1 / 2000]
   \<and> map lr (optimizer_groups example_named (1 / 10000 :: real) (1 / 100) (Some (3 / 1000)))
     = [1 / 10000, 1 / 10000, 3 / 1000]"
  using gate_learning_rate_rule[of example_named "1 / 10000 :: real" "1 / 100" None 5 example_named]
    gate_learning_rate_rule[of example_named "1 / 10000 :: real" "1 / 100" "Some (3 / 1000)" 5 example_named]
  by simp

text \<open>
  C10. Whatever the input and the configured weight decay, the gate group is built with
  weight decay 0.0, as the no_decay group is; only the decay group carries the
  configured value.
\<close>

theorem gate_group_weight_decay_zero:
  fixes base_lr wd k :: "'f::{zero,times,numeral}"
  shows "map weight_decay (get_grouped_params xs base_lr wd gate_lr k) = [wd, 0, 0]
       \<and> map weight_decay (optimizer_groups named base_lr wd gate_lr) = [wd, 0, 0]"
  by (simp add: optimizer_groups_def get_grouped_params_members)

theorem gate_group_weight_decay_zero_witness:
  "map weight_decay (optimizer_groups example_named (1 / 10000 :: real) (1 / 100) None)
     = [1 / 100, 0, 0]"
  using gate_group_weight_decay_zero[of example_named "1 / 10000 :: real" "1 / 100" None 5 example_named]
  by simp

section \<open>Step count\<close>

text \<open>
  C6. The total number of training steps is
  \<open>\<lfloor>train_num_samples / (batch_size * world_size)\<rfloor> * num_epochs\<close>, the division raising
  when \<open>batch_size * world_size\<close> is zero; it depends on these four values only, so two
  processes with the same values (whatever their rank) compute the same total.
\<close>

theorem total_training_steps_floor:
  "total_training_steps a =
     (if batch_size a * world_size a = 0
      then Inl (ZeroDivisionError ''integer division or modulo by zero'')
      else Inr (\<lfloor>real_of_int (train_num_samples a) / real_of_int (batch_size a * world_size a)\<rfloor>
                  * num_epochs a))
   \<and> (\<forall>b :: 'f args.
          train_num_samples b = train_num_samples a \<and> batch_size b = batch_size a
        \<and> world_size b = world_size a \<and> num_epochs b = num_epochs a
        \<longrightarrow> total_training_steps b = total_training_steps a)"
proof -
  have fl: "\<lfloor>real_of_int n / real_of_int d\<rfloor> = n div d" for n d :: int
    by (rule floor_divide_of_int_eq)
  show ?thesis
    unfolding total_training_steps_def Let_def fl by simp
qed

theorem total_training_steps_floor_witness:
  "total_training_steps example_args = Inr 78
   \<and> total_training_steps (example_args\<lparr>rank := 1\<rparr>) = total_training_steps example_args"
proof -
  have fl: "\<lfloor>real_of_int n / real_of_int d\<rfloor> = n div d" for n d :: int
    by (rule floor_divide_of_int_eq)
  note t = total_training_steps_floor[of example_args, unfolded fl]
  have "total_training_steps example_args = Inr 78"
    using conjunct1[OF t] by (simp add: example_args_def)
  moreover have "total_training_steps (example_args\<lparr>rank := 1\<rparr>) = total_training_steps example_args"
    using conjunct2[OF t, THEN spec, of "example_args\<lparr>rank := 1\<rparr>"] by simp
  ultimately show ?thesis by (rule conjI)
qed

section \<open>Flag check\<close>

text \<open>
  C9. When saving checkpoints to the telemetry service is requested without reporting to
  it, the script ends with \<^verbatim>\<open>ValueError\<close> whatever the collaborators and the world are:
  nothing is called and nothing is printed before the raise.
\<close>

theorem contradictory_wandb_flags_are_fatal:
  fixes C :: "('f::{zero,times,numeral}, 'w, 'v, 'g, 's, 'l) collaborators"
  assumes "save_checkpoints_to_wandb a" and "\<not> report_to_wandb a"
  shows "main C a w = Inl (ValueError ''save_checkpoints_to_wandb requires report_to_wandb'')"
  using assms by (simp add: main_def check_wandb_flags_def and_then_def)

theorem contradictory_wandb_flags_are_fatal_witness:
  "save_checkpoints_to_wandb (example_args\<lparr>save_checkpoints_to_wandb := True\<rparr>)
   \<and> \<not> report_to_wandb (example_args\<lparr>save_checkpoints_to_wandb := True\<rparr>)
   \<and> main (example [] example_checkpoint) (example_args\<lparr>save_checkpoints_to_wandb := True\<rparr>) []
       = Inl (ValueError ''save_checkpoints_to_wandb requires report_to_wandb'')"
proof -
  have h1: "save_checkpoints_to_wandb (example_args\<lparr>save_checkpoints_to_wandb := True\<rparr>)"
    by simp
  have h2: "\<not> report_to_wandb (example_args\<lparr>save_checkpoints_to_wandb := True\<rparr>)"
    by (simp add: example_args_def)
  from contradictory_wandb_flags_are_fatal[OF h1 h2, of "example [] example_checkpoint" "[]"] h1 h2
  show ?thesis by blast
qed

section \<open>Checkpoint discovery\<close>

lemma eval_keys_Inr:
  "eval_keys key xs = Inr ks \<Longrightarrow> map snd ks = xs \<and> (\<forall>p \<in> set ks. key (snd p) = Inr (fst p))"
proof (induction xs arbitrary: ks)
  case Nil
  then show ?case by simp
next
  case (Cons x xs)
  then show ?case
    by (auto split: sum.splits)
qed

lemma eval_keys_total:
  "\<forall>x \<in> set xs. \<exists>k. key x = Inr k \<Longrightarrow> \<exists>ks. eval_keys key xs = Inr ks"
  by (induction xs) auto

lemma sorted_key_last:
  "sorted (map f xs) \<Longrightarrow> x \<in> set xs \<Longrightarrow> f x \<le> f (last xs)"
proof (induction xs)
  case Nil
  then show ?case by simp
next
  case (Cons y ys)
  show ?case
  proof (cases "ys = []")
    case True
    with Cons.prems show ?thesis by simp
  next
    case False
    then have l: "last ys \<in> set ys" by simp
    from Cons.prems(1) have s: "sorted (map f ys)" and le: "\<forall>z \<in> set ys. f y \<le> f z"
      by simp_all
    show ?thesis
    proof (cases "x = y")
      case True
      with le l False show ?thesis by simp
    next
      case neq: False
      with Cons.prems(2) have "x \<in> set ys" by simp
      with Cons.IH[OF s] False show ?thesis by simp
    qed
  qed
qed

lemma py_sorted_last:
  assumes ok: "\<forall>x \<in> set xs. \<exists>k. key x = Inr k" and ne: "xs \<noteq> []"
  shows "\<exists>ys f k. py_sorted key xs = Inr ys \<and> item_last ys = Inr f \<and> f \<in> set xs
           \<and> key f = Inr k \<and> (\<forall>g \<in> set xs. \<forall>j. key g = Inr j \<longrightarrow> j \<le> k)"
proof -
  from eval_keys_total[OF ok] obtain ks where ks: "eval_keys key xs = Inr ks" by blast
  from eval_keys_Inr[OF ks] have m: "map snd ks = xs"
    and kk: "\<forall>p \<in> set ks. key (snd p) = Inr (fst p)" by simp_all
  have sx: "set xs = snd ` set ks"
    unfolding m[symmetric] by (rule set_map)
  define L where "L = sort_key fst ks"
  have Lset: "set L = set ks" and Lsorted: "sorted (map fst L)"
    by (simp_all add: L_def)
  from m ne have "ks \<noteq> []" by auto
  then have Lne: "L \<noteq> []" using Lset by auto
  then have lastL: "last L \<in> set ks" using Lset last_in_set[of L] by simp
  have res: "py_sorted key xs = Inr (map snd L)"
    by (simp add: py_sorted_def ks L_def)
  have il: "item_last (map snd L) = Inr (snd (last L))"
    using Lne by (simp add: item_last_def last_map)
  have mem: "snd (last L) \<in> set xs"
    unfolding sx using lastL by (rule imageI)
  have key: "key (snd (last L)) = Inr (fst (last L))"
    using kk lastL by (rule bspec)
  have mx: "\<forall>g \<in> set xs. \<forall>j. key g = Inr j \<longrightarrow> j \<le> fst (last L)"
  proof (intro ballI allI impI)
    fix g j assume g: "g \<in> set xs" and kj: "key g = Inr j"
    from g obtain p where p: "p \<in> set ks" "g = snd p" unfolding sx by (rule imageE)
    from kk p(1) have "key (snd p) = Inr (fst p)" by (rule bspec)
    with kj p(2) have "fst p = j" by simp
    moreover have "p \<in> set L" using p(1) Lset by simp
    then have "fst p \<le> fst (last L)" by (rule sorted_key_last[OF Lsorted])
    ultimately show "j \<le> fst (last L)" by simp
  qed
  show ?thesis
    apply (rule exI[of _ "map snd L"])
    apply (rule exI[of _ "snd (last L)"])
    apply (rule exI[of _ "fst (last L)"])
    apply (intro conjI res il mem key mx)
    done
qed

lemma is_digit_digit_char: "d < 10 \<Longrightarrow> is_digit (digit_char d)"
  by (simp add: is_digit_def digit_char_def)

lemma digit_val_digit_char: "d < 10 \<Longrightarrow> digit_val (digit_char d) = d"
  by (simp add: digit_val_def digit_char_def)

lemma digits_of_digits: "\<forall>c \<in> set (digits_of n). is_digit c"
proof (induction n rule: digits_of.induct)
  case (1 n)
  show ?case
  proof (cases "n < 10")
    case True
    then show ?thesis by (simp add: digits_of.simps[of n] is_digit_digit_char)
  next
    case False
    with 1 show ?thesis by (simp add: digits_of.simps[of n] is_digit_digit_char)
  qed
qed

lemma digits_of_nonempty: "digits_of n \<noteq> []"
  by (simp add: digits_of.simps[of n])

lemma parse_digits_all:
  "\<forall>c \<in> set ds. is_digit c
     \<Longrightarrow> parse_digits acc ds = Some (foldl (\<lambda>a c. 10 * a + digit_val c) acc ds)"
  by (induction acc ds rule: parse_digits.induct) simp_all

lemma foldl_digits_of:
  "foldl (\<lambda>a c. 10 * a + digit_val c) 0 (digits_of n) = n"
proof (induction n rule: digits_of.induct)
  case (1 n)
  show ?case
  proof (cases "n < 10")
    case True
    then show ?thesis by (simp add: digits_of.simps[of n] digit_val_digit_char)
  next
    case False
    with 1 show ?thesis by (simp add: digits_of.simps[of n] digit_val_digit_char)
  qed
qed

lemma parse_decimal_digits_of: "parse_decimal (digits_of n) = Some n"
proof -
  obtain c cs where d: "digits_of n = c # cs"
    using digits_of_nonempty[of n] by (cases "digits_of n") auto
  have all: "\<forall>x \<in> set (c # cs). is_digit x"
    using digits_of_digits[of n] unfolding d .
  then have "parse_decimal (c # cs) = parse_digits (digit_val c) cs"
    by (simp add: parse_decimal_def)
  also have "\<dots> = Some (foldl (\<lambda>a c. 10 * a + digit_val c) (digit_val c) cs)"
    using all by (intro parse_digits_all) simp
  also have "foldl (\<lambda>a c. 10 * a + digit_val c) (digit_val c) cs
               = foldl (\<lambda>a c. 10 * a + digit_val c) 0 (c # cs)"
    by simp
  finally show ?thesis
    unfolding d[symmetric] foldl_digits_of .
qed

lemma digit_not_space: "is_digit c \<Longrightarrow> \<not> is_space c"
  by (auto simp: is_digit_def is_space_def)

lemma digit_not_sign: "is_digit c \<Longrightarrow> c \<noteq> CHR ''-'' \<and> c \<noteq> CHR ''+''"
  by (auto simp: is_digit_def)

lemma digit_not_sep: "is_digit c \<Longrightarrow> c \<noteq> CHR ''_'' \<and> c \<noteq> CHR ''.''"
  by (auto simp: is_digit_def)

lemma py_strip_digits:
  assumes "\<forall>c \<in> set s. is_digit c"
  shows "py_strip s = s"
proof (cases "s = []")
  case True
  then show ?thesis by (simp add: py_strip_def)
next
  case False
  then have "\<not> is_space (hd s)" "\<not> is_space (last s)"
    using assms digit_not_space by simp_all
  then have a: "dropWhile is_space s = s" and b: "dropWhile is_space (rev s) = rev s"
    using False by (simp_all add: dropWhile_eq_self_iff hd_rev)
  show ?thesis by (simp add: py_strip_def a b)
qed

lemma py_int_digits_of: "py_int (digits_of n) = Inr (int n)"
proof -
  obtain c cs where d: "digits_of n = c # cs"
    using digits_of_nonempty[of n] by (cases "digits_of n") auto
  have "is_digit c" using digits_of_digits[of n] unfolding d by simp
  then have ns: "c \<noteq> CHR ''-''" "c \<noteq> CHR ''+''" using digit_not_sign by simp_all
  have st: "py_strip (digits_of n) = c # cs"
    using py_strip_digits[OF digits_of_digits, of n] unfolding d .
  have pd: "parse_decimal (c # cs) = Some n"
    using parse_decimal_digits_of[of n] unfolding d .
  show ?thesis
    by (simp add: py_int_def st ns pd)
qed

lemma py_split_nonempty: "py_split c s \<noteq> []"
  by (induction s) (auto split: list.splits)

lemma py_split_absent: "c \<notin> set s \<Longrightarrow> py_split c s = [s]"
  by (induction s) auto

lemma py_split_first: "c \<notin> set xs \<Longrightarrow> py_split c (xs @ c # ys) = xs # py_split c ys"
  by (induction xs) auto

lemma py_split_two: "tl (py_split c (xs @ c # ys)) \<noteq> []"
proof (induction xs)
  case Nil
  show ?case by (simp add: py_split_nonempty)
next
  case (Cons x xs)
  then show ?case by (cases "py_split c (xs @ c # ys)") auto
qed

lemma py_split_last: "last (py_split c (xs @ c # ys)) = last (py_split c ys)"
proof (induction xs)
  case Nil
  show ?case by (simp add: py_split_nonempty)
next
  case (Cons x xs)
  obtain w ws where s: "py_split c (xs @ c # ys) = w # ws" and ws: "ws \<noteq> []"
    using py_split_two[of c xs ys] by (cases "py_split c (xs @ c # ys)") auto
  show ?case
    using Cons.IH ws by (simp add: s)
qed

lemma checkpoint_key_suffix:
  assumes "\<forall>c \<in> set ds. is_digit c"
  shows "checkpoint_key (p @ ''_'' @ ds @ ''.pt'') = py_int ds"
proof -
  have nu: "CHR ''_'' \<notin> set (ds @ ''.pt'')" and nd: "CHR ''.'' \<notin> set ds"
    using assms digit_not_sep by auto
  have "last (py_split CHR ''_'' (p @ CHR ''_'' # (ds @ ''.pt''))) = last (py_split CHR ''_'' (ds @ ''.pt''))"
    by (rule py_split_last)
  also have "\<dots> = ds @ ''.pt''"
    unfolding py_split_absent[OF nu] by simp
  finally have l: "item_last (py_split CHR ''_'' (p @ ''_'' @ ds @ ''.pt'')) = Inr (ds @ ''.pt'')"
    by (simp add: item_last_def py_split_nonempty)
  have "py_split CHR ''.'' (ds @ CHR ''.'' # ''pt'') = ds # py_split CHR ''.'' ''pt''"
    using nd by (rule py_split_first)
  then have f: "item_first (py_split CHR ''.'' (ds @ ''.pt'')) = Inr ds"
    by (simp add: item_first_def)
  show ?thesis
    by (simp only: checkpoint_key_def l f sum.case)
qed

lemma checkpoint_key_numbered:
  "checkpoint_key (path_join dir (''checkpoint_'' @ py_str_int (int n) @ ''.pt'')) = Inr (int n)"
proof -
  have s: "py_str_int (int n) = digits_of n"
    by (simp add: py_str_int_def)
  have "\<exists>p. path_join dir (''checkpoint_'' @ digits_of n @ ''.pt'') = p @ ''_'' @ digits_of n @ ''.pt''"
  proof (cases "dir = [] \<or> suffix ''/'' dir")
    case True
    then have "path_join dir (''checkpoint_'' @ digits_of n @ ''.pt'')
                 = (dir @ ''checkpoint'') @ ''_'' @ digits_of n @ ''.pt''"
      by (simp add: path_join_def)
    then show ?thesis by blast
  next
    case False
    then have "path_join dir (''checkpoint_'' @ digits_of n @ ''.pt'')
                 = (dir @ ''/checkpoint'') @ ''_'' @ digits_of n @ ''.pt''"
      by (simp add: path_join_def)
    then show ?thesis by blast
  qed
  then obtain p where "path_join dir (''checkpoint_'' @ digits_of n @ ''.pt'') = p @ ''_'' @ digits_of n @ ''.pt''"
    by blast
  then show ?thesis
    unfolding s using checkpoint_key_suffix[OF digits_of_digits, of p n] py_int_digits_of[of n]
    by simp
qed

lemma load_checkpoint_fresh:
  "resume_from_checkpoint a = None \<Longrightarrow> load_checkpoint C a w = Inr (0, None, w)"
  by (simp add: load_checkpoint_def)

text \<open>
  C3. Discovery leaves the arguments alone when a resume path is given (or the run
  directory is missing). With no path given and no file matching the pattern, nothing is
  selected and loading then starts from epoch 0. With no path given and a non-empty list
  of files whose embedded epoch numbers all read as integers, the selected resume point
  is a file of the list whose number is the largest; in particular, when the files are
  \<^verbatim>\<open>checkpoint_<n>.pt\<close> for the epochs \<open>n\<close> of a non-empty list, the file of the largest
  epoch is selected.
\<close>

theorem checkpoint_discovery:
  fixes C :: "('f, 'w, 'v, 'g, 's, 'l) collaborators"
  shows
   "let dir = path_join checkpoint_base_path (run_name a);
        files = glob C (path_join dir ''checkpoint_*.pt'') w;
        none_found = print C (''Found no checkpoints for run '' @ run_name a @ ''.'') w
    in (resume_from_checkpoint a \<noteq> None \<or> \<not> path_exists C dir w
          \<longrightarrow> discover_checkpoint C a w = Inr (a, w))
     \<and> (resume_from_checkpoint a = None \<and> path_exists C dir w \<and> files = []
          \<longrightarrow> discover_checkpoint C a w = Inr (a, none_found)
            \<and> load_checkpoint C a none_found = Inr (0, None, none_found))
     \<and> (resume_from_checkpoint a = None \<and> path_exists C dir w \<and> files \<noteq> []
          \<and> (\<forall>f \<in> set files. \<exists>k. checkpoint_key f = Inr k)
          \<longrightarrow> (\<exists>f \<in> set files. \<exists>k.
                 checkpoint_key f = Inr k
               \<and> (\<forall>g \<in> set files. \<forall>j. checkpoint_key g = Inr j \<longrightarrow> j \<le> k)
               \<and> discover_checkpoint C a w =
                   Inr (a\<lparr>resume_from_checkpoint := Some f\<rparr>,
                        print C (''Found checkpoint '' @ f @ '' for run '' @ run_name a @ ''.'') w)))
     \<and> (\<forall>ns. resume_from_checkpoint a = None \<and> path_exists C dir w \<and> ns \<noteq> []
          \<and> files = map (\<lambda>n. path_join dir (''checkpoint_'' @ py_str_int (int n) @ ''.pt'')) ns
          \<longrightarrow> discover_checkpoint C a w =
                Inr (a\<lparr>resume_from_checkpoint :=
                        Some (path_join dir (''checkpoint_'' @ py_str_int (int (Max (set ns))) @ ''.pt''))\<rparr>,
                     print C (''Found checkpoint ''
                               @ path_join dir (''checkpoint_'' @ py_str_int (int (Max (set ns))) @ ''.pt'')
                               @ '' for run '' @ run_name a @ ''.'') w))"
proof -
  define dir where "dir = path_join checkpoint_base_path (run_name a)"
  define files where "files = glob C (path_join dir ''checkpoint_*.pt'') w"
  have skip: "discover_checkpoint C a w = Inr (a, w)"
    if "resume_from_checkpoint a \<noteq> None \<or> \<not> path_exists C dir w"
    using that by (auto simp: discover_checkpoint_def Let_def dir_def)
  have empty: "discover_checkpoint C a w
                 = Inr (a, print C (''Found no checkpoints for run '' @ run_name a @ ''.'') w)"
    if "resume_from_checkpoint a = None" "path_exists C dir w" "files = []"
    using that by (simp add: discover_checkpoint_def Let_def dir_def files_def)
  have pick: "\<exists>f \<in> set files. \<exists>k.
                 checkpoint_key f = Inr k
               \<and> (\<forall>g \<in> set files. \<forall>j. checkpoint_key g = Inr j \<longrightarrow> j \<le> k)
               \<and> discover_checkpoint C a w =
                   Inr (a\<lparr>resume_from_checkpoint := Some f\<rparr>,
                        print C (''Found checkpoint '' @ f @ '' for run '' @ run_name a @ ''.'') w)"
    if r: "resume_from_checkpoint a = None" and e: "path_exists C dir w" and ne: "files \<noteq> []"
      and ok: "\<forall>f \<in> set files. \<exists>k. checkpoint_key f = Inr k"
  proof -
    from py_sorted_last[OF ok ne] obtain ys f k where
      s: "py_sorted checkpoint_key files = Inr ys" and l: "item_last ys = Inr f"
      and m: "f \<in> set files" and kf: "checkpoint_key f = Inr k"
      and mx: "\<forall>g \<in> set files. \<forall>j. checkpoint_key g = Inr j \<longrightarrow> j \<le> k"
      by blast
    have "discover_checkpoint C a w =
            Inr (a\<lparr>resume_from_checkpoint := Some f\<rparr>,
                 print C (''Found checkpoint '' @ f @ '' for run '' @ run_name a @ ''.'') w)"
      using r e ne s l
      by (simp add: discover_checkpoint_def Let_def dir_def[symmetric] files_def[symmetric])
    with m kf mx show ?thesis by blast
  qed
  have numbered: "discover_checkpoint C a w =
                Inr (a\<lparr>resume_from_checkpoint :=
                        Some (path_join dir (''checkpoint_'' @ py_str_int (int (Max (set ns))) @ ''.pt''))\<rparr>,
                     print C (''Found checkpoint ''
                               @ path_join dir (''checkpoint_'' @ py_str_int (int (Max (set ns))) @ ''.pt'')
                               @ '' for run '' @ run_name a @ ''.'') w)"
    if r: "resume_from_checkpoint a = None" and e: "path_exists C dir w" and nn: "ns \<noteq> []"
      and fs: "files = map (\<lambda>n. path_join dir (''checkpoint_'' @ py_str_int (int n) @ ''.pt'')) ns"
    for ns
  proof -
    let ?file = "\<lambda>n. path_join dir (''checkpoint_'' @ py_str_int (int n) @ ''.pt'')"
    have key: "checkpoint_key (?file n) = Inr (int n)" for n
      by (rule checkpoint_key_numbered)
    have sf: "set files = ?file ` set ns" unfolding fs by simp
    have ok: "\<forall>f \<in> set files. \<exists>k. checkpoint_key f = Inr k"
      unfolding sf using key by blast
    have ne: "files \<noteq> []" using nn fs by simp
    from pick[OF r e ne ok] obtain f k where f: "f \<in> set files"
      and kf: "checkpoint_key f = Inr k"
      and mx: "\<forall>g \<in> set files. \<forall>j. checkpoint_key g = Inr j \<longrightarrow> j \<le> k"
      and d: "discover_checkpoint C a w =
                Inr (a\<lparr>resume_from_checkpoint := Some f\<rparr>,
                     print C (''Found checkpoint '' @ f @ '' for run '' @ run_name a @ ''.'') w)"
      by blast
    from f obtain n where n: "n \<in> set ns" and fn: "f = ?file n" unfolding sf by blast
    from kf key[of n] have k: "k = int n" unfolding fn by simp
    have "m \<le> n" if "m \<in> set ns" for m
    proof -
      from that have "?file m \<in> set files" unfolding sf by blast
      with mx key[of m] have "int m \<le> k" by blast
      with k show ?thesis by simp
    qed
    with n have "Max (set ns) = n" by (intro Max_eqI) simp_all
    with d fn show ?thesis by simp
  qed
  show ?thesis
    unfolding Let_def dir_def[symmetric] files_def[symmetric]
  proof (intro conjI impI allI)
    fix ns
    assume "resume_from_checkpoint a = None \<and> path_exists C dir w \<and> ns \<noteq> []
          \<and> files = map (\<lambda>n. path_join dir (''checkpoint_'' @ py_str_int (int n) @ ''.pt'')) ns"
    then have "resume_from_checkpoint a = None" "path_exists C dir w" "ns \<noteq> []"
      "files = map (\<lambda>n. path_join dir (''checkpoint_'' @ py_str_int (int n) @ ''.pt'')) ns"
      by simp_all
    then show "discover_checkpoint C a w =
                Inr (a\<lparr>resume_from_checkpoint :=
                        Some (path_join dir (''checkpoint_'' @ py_str_int (int (Max (set ns))) @ ''.pt''))\<rparr>,
                     print C (''Found checkpoint ''
                               @ path_join dir (''checkpoint_'' @ py_str_int (int (Max (set ns))) @ ''.pt'')
                               @ '' for run '' @ run_name a @ ''.'') w)"
      by (rule numbered)
  next
    assume "resume_from_checkpoint a \<noteq> None \<or> \<not> path_exists C dir w"
    then show "discover_checkpoint C a w = Inr (a, w)" by (rule skip)
  next
    assume h: "resume_from_checkpoint a = None \<and> path_exists C dir w \<and> files = []"
    then show "discover_checkpoint C a w
                 = Inr (a, print C (''Found no checkpoints for run '' @ run_name a @ ''.'') w)"
      by (simp add: empty)
  next
    assume h: "resume_from_checkpoint a = None \<and> path_exists C dir w \<and> files = []"
    then show "load_checkpoint C a (print C (''Found no checkpoints for run '' @ run_name a @ ''.'') w)
                 = Inr (0, None, print C (''Found no checkpoints for run '' @ run_name a @ ''.'') w)"
      by (simp add: load_checkpoint_fresh)
  next
    assume h: "resume_from_checkpoint a = None \<and> path_exists C dir w \<and> files \<noteq> []
                 \<and> (\<forall>f \<in> set files. \<exists>k. checkpoint_key f = Inr k)"
    then have "resume_from_checkpoint a = None" "path_exists C dir w" "files \<noteq> []"
      "\<forall>f \<in> set files. \<exists>k. checkpoint_key f = Inr k" by simp_all
    then show "\<exists>f \<in> set files. \<exists>k.
                 checkpoint_key f = Inr k
               \<and> (\<forall>g \<in> set files. \<forall>j. checkpoint_key g = Inr j \<longrightarrow> j \<le> k)
               \<and> discover_checkpoint C a w =
                   Inr (a\<lparr>resume_from_checkpoint := Some f\<rparr>,
                        print C (''Found checkpoint '' @ f @ '' for run '' @ run_name a @ ''.'') w)"
      by (rule pick)
  qed
qed

theorem checkpoint_discovery_witness:
  "discover_checkpoint (example example_files example_checkpoint)
       (example_args\<lparr>resume_from_checkpoint := Some ''manual.pt''\<rparr>) []
     = Inr (example_args\<lparr>resume_from_checkpoint := Some ''manual.pt''\<rparr>, [])
   \<and> discover_checkpoint (example [] example_checkpoint) example_args []
     = Inr (example_args, [Printed ''Found no checkpoints for run run.''])
   \<and> load_checkpoint (example [] example_checkpoint) example_args
         [Printed ''Found no checkpoints for run run.'']
     = Inr (0, None, [Printed ''Found no checkpoints for run run.''])
   \<and> map checkpoint_key example_files = [Inr 3, Inr 7, Inr 5]
   \<and> discover_checkpoint (example example_files example_checkpoint) example_args []
     = Inr (example_args\<lparr>resume_from_checkpoint :=
               Some ''/mnt/bulk-mars/vidhya/visionLanguage/CHECKPOINT/run/checkpoint_7.pt''\<rparr>,
            [Printed ''Found checkpoint /mnt/bulk-mars/vidhya/visionLanguage/CHECKPOINT/run/checkpoint_7.pt for run run.''])"
proof -
  let ?f3 = "''/mnt/bulk-mars/vidhya/visionLanguage/CHECKPOINT/run/checkpoint_3.pt''"
  let ?f7 = "''/mnt/bulk-mars/vidhya/visionLanguage/CHECKPOINT/run/checkpoint_7.pt''"
  let ?f5 = "''/mnt/bulk-mars/vidhya/visionLanguage/CHECKPOINT/run/checkpoint_5.pt''"
  have g: "glob (example fs example_checkpoint) p w = fs" for fs p w
    by (simp add: example_def)
  have e: "path_exists (example fs example_checkpoint) p w" for fs p w
    by (simp add: example_def)
  have pr: "print (example fs example_checkpoint) s w = w @ [Printed s]" for fs s w
    by (simp add: example_def)
  have r: "resume_from_checkpoint example_args = None" "run_name example_args = ''run''"
    by (simp_all add: example_args_def)
  have k3: "checkpoint_key ?f3 = Inr 3" by code_simp
  have k7: "checkpoint_key ?f7 = Inr 7" by code_simp
  have k5: "checkpoint_key ?f5 = Inr 5" by code_simp
  have files: "set example_files = {?f3, ?f7, ?f5}"
    by (simp add: example_files_def)
  have ok: "\<forall>f \<in> set example_files. \<exists>k. checkpoint_key f = Inr k"
    unfolding files using k3 k7 k5 by blast
  have c1: "discover_checkpoint (example example_files example_checkpoint)
              (example_args\<lparr>resume_from_checkpoint := Some ''manual.pt''\<rparr>) []
            = Inr (example_args\<lparr>resume_from_checkpoint := Some ''manual.pt''\<rparr>, [])"
    using checkpoint_discovery[of "example_args\<lparr>resume_from_checkpoint := Some ''manual.pt''\<rparr>"
        "example example_files example_checkpoint" "[]", unfolded Let_def, THEN conjunct1]
    by simp
  note t2 = checkpoint_discovery[of example_args "example [] example_checkpoint" "[]",
      unfolded Let_def g pr r, THEN conjunct2, THEN conjunct1]
  have c2: "discover_checkpoint (example [] example_checkpoint) example_args []
              = Inr (example_args, [Printed ''Found no checkpoints for run run.''])"
    and c3: "load_checkpoint (example [] example_checkpoint) example_args
                [Printed ''Found no checkpoints for run run.'']
              = Inr (0, None, [Printed ''Found no checkpoints for run run.''])"
    using t2 e by simp_all
  note t3 = checkpoint_discovery[of example_args "example example_files example_checkpoint" "[]",
      unfolded Let_def g pr r, THEN conjunct2, THEN conjunct2, THEN conjunct1]
  have ne: "example_files \<noteq> []" by (simp add: example_files_def)
  from t3 e ok ne obtain f k where f: "f \<in> set example_files"
    and kf: "checkpoint_key f = Inr k"
    and mx: "\<forall>g \<in> set example_files. \<forall>j. checkpoint_key g = Inr j \<longrightarrow> j \<le> k"
    and d: "discover_checkpoint (example example_files example_checkpoint) example_args []
              = Inr (example_args\<lparr>resume_from_checkpoint := Some f\<rparr>,
                     [] @ [Printed (''Found checkpoint '' @ f @ '' for run '' @ ''run'' @ ''.'')])"
    by blast
  have "?f7 \<in> set example_files" unfolding files by simp
  with mx k7 have "7 \<le> k" by blast
  moreover from f have "f = ?f3 \<or> f = ?f7 \<or> f = ?f5" unfolding files by blast
  ultimately have "f = ?f7" using kf k3 k5 by auto
  with d have c4: "discover_checkpoint (example example_files example_checkpoint) example_args []
     = Inr (example_args\<lparr>resume_from_checkpoint := Some ?f7\<rparr>,
            [Printed ''Found checkpoint /mnt/bulk-mars/vidhya/visionLanguage/CHECKPOINT/run/checkpoint_7.pt for run run.''])"
    by simp
  have ks: "map checkpoint_key example_files = [Inr 3, Inr 7, Inr 5]"
    by (simp add: example_files_def k3 k7 k5)
  from c1 c2 c3 ks c4 show ?thesis by (intro conjI)
qed

section \<open>Checkpoint loading\<close>

lemma py_replace_absent:
  assumes "old \<noteq> []"
  shows "\<not> sublist old s \<Longrightarrow> py_replace old new s = s"
proof (induction s)
  case Nil
  show ?case using assms by (simp add: py_replace.simps[of old new "[]"])
next
  case (Cons c cs)
  from Cons.prems have np: "\<not> prefix old (c # cs)" and ns: "\<not> sublist old cs"
    by (simp_all add: sublist_Cons_right)
  have "py_replace old new (c # cs) = c # py_replace old new cs"
    using assms np by (simp add: py_replace.simps[of old new "c # cs"])
  with Cons.IH[OF ns] show ?case by simp
qed

lemma rename_key_clean:
  assumes "\<not> sublist ''module.'' (strip_prefix ''module.'' k)"
  shows "rename_key k = strip_prefix ''module.'' k"
proof (cases "prefix ''module.'' k")
  case True
  then have ne: "k \<noteq> []" by auto
  have "rename_key k = py_replace ''module.'' [] (drop (length ''module.'') k)"
    unfolding rename_key_def using True ne
    by (subst py_replace.simps) simp
  also have "\<dots> = py_replace ''module.'' [] (strip_prefix ''module.'' k)"
    using True by (simp add: strip_prefix_def)
  also have "\<dots> = strip_prefix ''module.'' k"
    using assms by (intro py_replace_absent) simp_all
  finally show ?thesis .
next
  case False
  then have "strip_prefix ''module.'' k = k" by (simp add: strip_prefix_def)
  with assms show ?thesis
    unfolding rename_key_def by (simp add: py_replace_absent)
qed

lemma update_fresh:
  "k \<notin> fst ` set al \<Longrightarrow> AList.update k v al = al @ [(k, v)]"
  by (induction al) auto

lemma foldl_update_keys:
  "fst ` set (foldl (\<lambda>d kv. AList.update (r (fst kv)) (snd kv) d) acc xs)
     = fst ` set acc \<union> (\<lambda>kv. r (fst kv)) ` set xs"
proof (induction xs arbitrary: acc)
  case Nil
  show ?case by simp
next
  case (Cons x xs)
  show ?case
    unfolding foldl_Cons Cons.IH dom_update by auto
qed

lemma foldl_update_distinct:
  "distinct (map (\<lambda>kv. r (fst kv)) xs) \<Longrightarrow> (\<lambda>kv. r (fst kv)) ` set xs \<inter> fst ` set acc = {}
     \<Longrightarrow> foldl (\<lambda>d kv. AList.update (r (fst kv)) (snd kv) d) acc xs
           = acc @ map (\<lambda>kv. (r (fst kv), snd kv)) xs"
proof (induction xs arbitrary: acc)
  case Nil
  show ?case by simp
next
  case (Cons x xs)
  from Cons.prems(2) have fresh: "r (fst x) \<notin> fst ` set acc" by auto
  have step: "AList.update (r (fst x)) (snd x) acc = acc @ [(r (fst x), snd x)]"
    using fresh by (rule update_fresh)
  from Cons.prems have d: "distinct (map (\<lambda>kv. r (fst kv)) xs)"
    and dj: "(\<lambda>kv. r (fst kv)) ` set xs \<inter> fst ` set (acc @ [(r (fst x), snd x)]) = {}"
    by auto
  show ?case
    unfolding foldl_Cons step Cons.IH[OF d dj] by simp
qed

lemma rename_keys_keys:
  "fst ` set (rename_keys msd) = rename_key ` fst ` set msd"
  unfolding rename_keys_def foldl_update_keys by (simp add: image_image)

lemma rename_keys_distinct:
  "distinct (map (\<lambda>kv. rename_key (fst kv)) msd)
     \<Longrightarrow> rename_keys msd = map (\<lambda>kv. (rename_key (fst kv), snd kv)) msd"
  unfolding rename_keys_def by (subst foldl_update_distinct) simp_all

lemma load_checkpoint_unfold:
  assumes "resume_from_checkpoint a = Some path"
    and "torch_load C path (if rank a = 0 then print C (''Loading checkpoint from '' @ path) w else w)
           = Inr ck"
    and "model_state_dict ck = Some msd" and "epoch ck = Some e" and "fsdp a = Some f"
  shows "load_checkpoint C a w =
           (if \<not> f \<or> rank a = 0
            then (case model_load_state_dict C (rename_keys msd) False
                         (if rank a = 0 then print C (''Loading checkpoint from '' @ path) w else w) of
                    Inl err \<Rightarrow> Inl err
                  | Inr w2 \<Rightarrow> Inr (e + 1, Some ck, w2))
            else Inr (e + 1, Some ck,
                      if rank a = 0 then print C (''Loading checkpoint from '' @ path) w else w))"
  using assms by (simp add: load_checkpoint_def Let_def)

lemma load_checkpoint_without_fsdp:
  assumes "resume_from_checkpoint a = Some path"
    and "torch_load C path (if rank a = 0 then print C (''Loading checkpoint from '' @ path) w else w)
           = Inr ck"
    and "model_state_dict ck = Some msd" and "epoch ck = Some e" and "fsdp a = None"
  shows "load_checkpoint C a w = Inl (AttributeError ''fsdp'')"
  using assms by (simp add: load_checkpoint_def Let_def)

text \<open>
  C4. The claim that a resume renames the keys by stripping the prefix, sets the resume
  epoch and loads the model weights non-strictly without raising does not hold of the
  code. With the arguments the parser returns, a run that resumes, from a discovered
  checkpoint or from a given path, ends with \<^verbatim>\<open>AttributeError\<close> at line 172, before the
  model's load is called. Besides, line 169 removes \<^verbatim>\<open>module.\<close> inside a key too, where
  stripping the prefix would keep it.
\<close>

theorem resume_raises_attribute_error:
  "main (example example_files example_checkpoint) example_args []
     = Inl (AttributeError ''fsdp'')
   \<and> main (example [] example_checkpoint)
         (example_args\<lparr>resume_from_checkpoint := Some ''checkpoint_0.pt''\<rparr>) []
     = Inl (AttributeError ''fsdp'')
   \<and> rename_keys [(''module.perceiver.latents'', 11 :: int),
                    (''module.lang_encoder.submodule.weight'', 12)]
     = [(''perceiver.latents'', 11), (''lang_encoder.subweight'', 12)]
   \<and> strip_prefix ''module.'' ''module.lang_encoder.submodule.weight''
     = ''lang_encoder.submodule.weight''"
  by code_simp

section \<open>Epoch loop and final save\<close>

lemma epoch_driver_empty_range:
  "num_epochs a \<le> resume_from_epoch
     \<Longrightarrow> epoch_driver C a resume_from_epoch w = Inl (UnboundLocalError ''epoch'')"
  by (simp add: epoch_driver_def)

lemma example_epoch_loop:
  "epoch_loop (example fs ck) a es (v, w) =
     Inr (if es = [] then v else Some (last es), w @ concat (map (\<lambda>e. [Trained e, Saved e]) es))"
proof (induction es arbitrary: v w)
  case Nil
  show ?case by simp
next
  case (Cons e es)
  have t: "train_one_epoch (example fs ck) a e w = Inr (w @ [Trained e])"
    and s: "save_checkpoint (example fs ck) a e (w @ [Trained e]) = Inr (w @ [Trained e, Saved e])"
    by (simp_all add: example_def)
  show ?case by (simp add: t s Cons.IH)
qed

lemma example_epoch_driver:
  assumes "resume_from_epoch < num_epochs a"
  shows "epoch_driver (example fs ck) a resume_from_epoch w =
           Inr (w @ concat (map (\<lambda>e. [Trained e, Saved e]) [resume_from_epoch..num_epochs a - 1])
                  @ [Saved (num_epochs a - 1)])"
proof -
  have ne: "[resume_from_epoch..num_epochs a - 1] \<noteq> []"
    using assms by (simp add: upto.simps)
  have l: "last [resume_from_epoch..num_epochs a - 1] = num_epochs a - 1"
    using assms by (simp add: upto_rec2)
  have s: "save_checkpoint (example fs ck) a e w' = Inr (w' @ [Saved e])" for e w'
    by (simp add: example_def)
  show ?thesis
    using assms by (simp add: epoch_driver_def example_epoch_loop ne l s)
qed

text \<open>
  C8. The claim that the final save is made even when the loop body never runs does not
  hold of the code: a fresh run with \<^verbatim>\<open>--num_epochs 0\<close> has an empty range, so \<^verbatim>\<open>epoch\<close> is
  unbound at line 303 and the script ends with \<^verbatim>\<open>UnboundLocalError\<close> before any save.
\<close>

theorem final_save_raises_after_empty_loop:
  "main (example [] example_checkpoint) (example_args\<lparr>num_epochs := 0\<rparr>) []
     = Inl (UnboundLocalError ''epoch'')"
  by code_simp

lemma example_fresh_run:
  "main (example [] example_checkpoint) (example_args\<lparr>num_epochs := 2\<rparr>) []
     = Inr [Printed ''Found no checkpoints for run run.'', Optimizer_made 3,
            Printed ''Total training steps: 156'', Schedule_made Constant,
            Trained 0, Saved 0, Trained 1, Saved 1, Saved 1]"
  by code_simp

section \<open>Optimizer-state load\<close>

text \<open>
  C5. Given a library whose optimizer rejects a saved state with another number of
  parameter groups by \<^verbatim>\<open>ValueError\<close>, a resume from such a state does not raise: the three
  warning lines are printed and nothing else changes in the world, so the optimizer is
  the freshly constructed one.
\<close>

theorem optimizer_group_mismatch_is_caught:
  fixes C :: "('f, 'w, 'v, 'g, 's, 'l) collaborators"
  assumes "resume_from_checkpoint a = Some path"
    and "optimizer_state_dict ck = Some osd"
    and "length (osd_param_groups osd) \<noteq> length (optimizer_param_groups C w)"
    and "\<forall>sd w'. length (osd_param_groups sd) \<noteq> length (optimizer_param_groups C w')
           \<longrightarrow> (\<exists>msg. optimizer_load_state_dict C sd w' = Inl (ValueError msg))"
  shows "load_optimizer_checkpoint C a (Some ck) w =
           Inr (print C (''Current optimizer param groups: ''
                          @ py_str_int (int (length (optimizer_param_groups C w))))
                 (print C (''Checkpoint param groups: ''
                            @ py_str_int (int (length (osd_param_groups osd))))
                   (print C ''WARNING: Optimizer state_dict could not be loaded due to mismatch.'' w)))"
proof -
  from assms(3,4) obtain msg where "optimizer_load_state_dict C osd w = Inl (ValueError msg)"
    by blast
  with assms(1,2) show ?thesis
    by (simp add: load_optimizer_checkpoint_def)
qed

theorem optimizer_group_mismatch_is_caught_witness:
  "load_optimizer_checkpoint (example [] example_checkpoint)
       (example_args\<lparr>resume_from_checkpoint := Some ''checkpoint_0.pt''\<rparr>)
       (Some example_checkpoint) [Optimizer_made 3]
     = Inr [Optimizer_made 3,
            Printed ''WARNING: Optimizer state_dict could not be loaded due to mismatch.'',
            Printed ''Checkpoint param groups: 2'',
            Printed ''Current optimizer param groups: 3'']"
proof -
  let ?C = "example [] example_checkpoint"
  let ?osd = "\<lparr>osd_param_groups = [4, 2 :: nat], osd_state = ()\<rparr>"
  have n: "length (optimizer_param_groups ?C w) = 3" for w
    by (simp add: example_def optimizer_groups_nth)
  have h1: "resume_from_checkpoint (example_args\<lparr>resume_from_checkpoint := Some ''checkpoint_0.pt''\<rparr>)
              = Some ''checkpoint_0.pt''" by simp
  have h2: "optimizer_state_dict example_checkpoint = Some ?osd"
    by (simp add: example_checkpoint_def)
  have h3: "length (osd_param_groups ?osd) \<noteq> length (optimizer_param_groups ?C [Optimizer_made 3])"
    by (simp add: n)
  have h4: "\<forall>sd w'. length (osd_param_groups sd) \<noteq> length (optimizer_param_groups ?C w')
              \<longrightarrow> (\<exists>msg. optimizer_load_state_dict ?C sd w' = Inl (ValueError msg))"
    unfolding n by (simp add: example_def)
  have pr: "print ?C s w = w @ [Printed s]" for s w
    by (simp add: example_def)
  have d2: "py_str_int 2 = ''2''" and d3: "py_str_int 3 = ''3''" by code_simp+
  from optimizer_group_mismatch_is_caught[OF h1 h2 h3 h4] show ?thesis
    by (simp add: n pr d2 d3)
qed

end
